theory Spec2Isabelle
  imports Main
begin

section \<open>The Result Store\<close>

text \<open>
  The methods file works on the collection \<^verbatim>\<open>Documents\<close>, imported from
  \<^verbatim>\<open>./documents\<close>. A stored Record carries the fields the methods write: the
  identifier \<^verbatim>\<open>_id\<close>, \<^verbatim>\<open>title\<close> (the command text), \<^verbatim>\<open>body\<close> (the captured
  stdout), \<^verbatim>\<open>stderr\<close> and \<^verbatim>\<open>createdAt\<close>. Every field but the identifier may be
  missing. Strings are lists of 8-bit characters and \<open>length\<close> counts them; time is a
  number of milliseconds.
\<close>

record doc_record =
  doc_id :: string
  title :: "string option"
  body :: "string option"
  stderr :: "string option"
  createdAt :: "nat option"

type_synonym collection = "doc_record list"

text \<open>
  The \<^verbatim>\<open>$set\<close> modifier of an upsert: a field that is \<open>None\<close> is not listed and keeps
  its stored value. When the methods put \<^verbatim>\<open>_id\<close> under \<^verbatim>\<open>$set\<close> it is the selector's
  own identifier, which changes nothing, so the modifier has no identifier field.
\<close>

record modifier =
  set_title :: "string option"
  set_body :: "string option"
  set_stderr :: "string option"
  set_createdAt :: "nat option"

text \<open>
  Modelled from the spec: the operations of the collection \<^verbatim>\<open>Documents\<close>, which
  \<^verbatim>\<open>./documents\<close> creates and which is not among the sources, follow section 4.1 of
  the specification. A Record that an upsert creates has its identifier and no other
  field yet.
\<close>

definition new_document :: "string \<Rightarrow> doc_record" where
  "new_document i =
     \<lparr>doc_id = i, title = None, body = None, stderr = None, createdAt = None\<rparr>"

text \<open>
  Modelled from the spec: the merge of an upsert (section 4.1), the listed fields are
  overwritten, all others retained.
\<close>

definition apply_set :: "modifier \<Rightarrow> doc_record \<Rightarrow> doc_record" where
  "apply_set m r =
     r\<lparr>title := (case set_title m of None \<Rightarrow> title r | Some t \<Rightarrow> Some t),
       body := (case set_body m of None \<Rightarrow> body r | Some b \<Rightarrow> Some b),
       stderr := (case set_stderr m of None \<Rightarrow> stderr r | Some e \<Rightarrow> Some e),
       createdAt := (case set_createdAt m of None \<Rightarrow> createdAt r | Some t \<Rightarrow> Some t)\<rparr>"

text \<open>
  Modelled from the spec: an upsert changes the Record with the matching identifier
  (section 4.1), the first one in the order of the collection.
\<close>

fun update_first :: "string \<Rightarrow> (doc_record \<Rightarrow> doc_record) \<Rightarrow> collection \<Rightarrow> collection" where
  "update_first i f [] = []"
| "update_first i f (r # rs) = (if doc_id r = i then f r # rs else r # update_first i f rs)"

text \<open>
  Modelled from the spec: \<^verbatim>\<open>find(filter)\<close> (section 4.1), a non-mutating lookup with
  an exact-match filter on the title. The filter \<^verbatim>\<open>{ title: undefined }\<close> matches the
  Records that have no title.
\<close>

definition Documents_find :: "string option \<Rightarrow> collection \<Rightarrow> doc_record list" where
  "Documents_find t c = filter (\<lambda>r. title r = t) c"

text \<open>
  Modelled from the spec: \<^verbatim>\<open>count\<close> (section 4.1) returns the number of matching
  Records.
\<close>

definition Documents_count :: "doc_record list \<Rightarrow> nat" where
  "Documents_count rs = length rs"

text \<open>
  Modelled from the spec: \<^verbatim>\<open>findOne(id)\<close> (section 4.1), the non-mutating lookup of a
  Record by its identifier, as the form component does to show a result.
\<close>

definition Documents_findOne :: "string \<Rightarrow> collection \<Rightarrow> doc_record option" where
  "Documents_findOne i c = List.find (\<lambda>r. doc_id r = i) c"

text \<open>
  Modelled from the spec: \<^verbatim>\<open>remove(id)\<close> (section 4.1) deletes the Record and is a
  no-op when it is absent.
\<close>

definition Documents_remove :: "string \<Rightarrow> collection \<Rightarrow> collection" where
  "Documents_remove i c = filter (\<lambda>r. doc_id r \<noteq> i) c"

text \<open>
  Modelled from the spec: \<^verbatim>\<open>upsert(id, fields)\<close> (section 4.1) merges the fields into
  the Record with the matching identifier, or creates that Record when none matches. A
  selector whose identifier is undefined matches no Record, so the upsert creates one
  under \<open>gen\<close>, the fresh identifier that the store's generator hands out for this
  call.
\<close>

definition Documents_upsert :: "string option \<Rightarrow> modifier \<Rightarrow> string \<Rightarrow> collection \<Rightarrow> collection" where
  "Documents_upsert sel m gen c =
     (case sel of
        Some i \<Rightarrow>
          if i \<in> set (map doc_id c) then update_first i (apply_set m) c
          else c @ [apply_set m (new_document i)]
      | None \<Rightarrow> c @ [apply_set m (new_document gen)])"

section \<open>The server state\<close>

text \<open>
  The rate limiter counts, for a method and a caller, the calls of the current window.
\<close>

datatype method_name = upsertDocument | removeDocument | HLIDocker | PublicDocker

record window =
  started :: nat
  calls :: nat

type_synonym limiter = "method_name \<times> string \<Rightarrow> window option"

text \<open>
  Besides the collection, the state records what the methods do to the outside: the
  calls of \<^verbatim>\<open>exec\<close> (command line and \<^verbatim>\<open>maxBuffer\<close> option) and the lines written
  with \<^verbatim>\<open>console.error\<close>.
\<close>

record server =
  docs :: collection
  spawned :: "(string \<times> nat) list"
  console :: "string list"
  limiter :: limiter

datatype error = TypeError | RateLimitExceeded

section \<open>The methods\<close>

record upsert_args =
  arg_id :: "string option"
  arg_title :: "string option"
  arg_body :: "string option"
  arg_stderr :: "string option"

record docker_args =
  docker_id :: "string option"
  cmd :: "string option"

text \<open>
  \<^verbatim>\<open>documents.upsert\<close>: \<^verbatim>\<open>Documents.upsert({ _id: document._id }, { $set: document })\<close>.
  The validator admits exactly the four optional string fields of \<open>upsert_args\<close>.
\<close>

definition upsertDocument_run :: "upsert_args \<Rightarrow> string \<Rightarrow> server \<Rightarrow> server" where
  "upsertDocument_run document gen s =
     s\<lparr>docs := Documents_upsert (arg_id document)
                 \<lparr>set_title = arg_title document, set_body = arg_body document,
                  set_stderr = arg_stderr document, set_createdAt = None\<rparr>
                 gen (docs s)\<rparr>"

text \<open>\<^verbatim>\<open>documents.remove\<close>: \<^verbatim>\<open>Documents.remove(_id)\<close>.\<close>

definition removeDocument_run :: "string \<Rightarrow> server \<Rightarrow> server" where
  "removeDocument_run i s = s\<lparr>docs := Documents_remove i (docs s)\<rparr>"

text \<open>A template literal renders an undefined value as the text \<^verbatim>\<open>undefined\<close>.\<close>

definition template :: "string option \<Rightarrow> string" where
  "template v = (case v of None \<Rightarrow> ''undefined'' | Some t \<Rightarrow> t)"

text \<open>
  \<^verbatim>\<open>JSON.stringify({ error: e })\<close> for a string \<open>e\<close>: the quotation mark and the
  backslash are escaped, the control characters are written \<^verbatim>\<open>\b \t \n \f \r\<close> or
  as \<^verbatim>\<open>\u00XX\<close>, every other character stands for itself.
\<close>

definition hex_digit :: "nat \<Rightarrow> char" where
  "hex_digit n =
     (let d = n mod 16 in if d < 10 then char_of (48 + d) else char_of (87 + d))"

definition json_escape :: "char \<Rightarrow> string" where
  "json_escape c =
     (if c = CHR 0x22 then [CHR 0x5C, CHR 0x22]
      else if c = CHR 0x5C then [CHR 0x5C, CHR 0x5C]
      else if c = CHR 0x08 then [CHR 0x5C, CHR ''b'']
      else if c = CHR 0x09 then [CHR 0x5C, CHR ''t'']
      else if c = CHR 0x0A then [CHR 0x5C, CHR ''n'']
      else if c = CHR 0x0C then [CHR 0x5C, CHR ''f'']
      else if c = CHR 0x0D then [CHR 0x5C, CHR ''r'']
      else if (of_char c :: nat) < 32
        then [CHR 0x5C, CHR ''u'', CHR ''0'', CHR ''0'',
              hex_digit (of_char c div 16), hex_digit (of_char c)]
      else [c])"

definition JSON_stringify_error :: "string \<Rightarrow> string" where
  \<open>JSON_stringify_error e = ''{"error":"'' @ concat (map json_escape e) @ ''"}''\<close>

text \<open>
  \<^verbatim>\<open>docker.hli\<close>, the synchronous part of \<^verbatim>\<open>run\<close>: the dedup check and the call of
  \<^verbatim>\<open>exec\<close>. The result is \<open>None\<close> when the method returns before \<^verbatim>\<open>exec\<close>, and the
  command line and the \<^verbatim>\<open>maxBuffer\<close> option handed to \<^verbatim>\<open>exec\<close> otherwise.
\<close>

definition HLIDocker_run :: "docker_args \<Rightarrow> server \<Rightarrow> (string \<times> nat) option \<times> server" where
  "HLIDocker_run document s =
     (if Documents_count (Documents_find (cmd document) (docs s)) \<noteq> 0 then (None, s)
      else
        let cmdline = ''docker run --rm tanghaibao/tredparse '' @ template (cmd document)
        in (Some (cmdline, 1024 * 1000), s\<lparr>spawned := spawned s @ [(cmdline, 1024 * 1000)]\<rparr>))"

text \<open>
  The callback that \<^verbatim>\<open>exec\<close> runs when the process is over, with the error (as the
  text \<^verbatim>\<open>err.toString()\<close>, \<open>None\<close> for \<^verbatim>\<open>null\<close>), the captured stdout and the captured
  stderr. \<^verbatim>\<open>err.toString()\<close> on \<^verbatim>\<open>null\<close> throws a TypeError, which ends the callback.
  The object \<^verbatim>\<open>output\<close> has the keys \<^verbatim>\<open>title\<close>, \<^verbatim>\<open>body\<close>, \<^verbatim>\<open>stderr\<close> and
  \<^verbatim>\<open>createdAt\<close> only, so the selector \<^verbatim>\<open>{ _id: output._id }\<close> has an undefined
  identifier. \<open>now\<close> is the value of \<^verbatim>\<open>new Date()\<close>. When the call had no \<^verbatim>\<open>cmd\<close>,
  the title of \<^verbatim>\<open>output\<close> is undefined and the Record gets no title.
\<close>

definition HLIDocker_callback ::
  "docker_args \<Rightarrow> string option \<Rightarrow> string \<Rightarrow> string \<Rightarrow> nat \<Rightarrow> string \<Rightarrow> server \<Rightarrow> error + server" where
  "HLIDocker_callback document err stdout stderr_out now gen s =
     (let s1 = (case err of
                  None \<Rightarrow> s
                | Some e \<Rightarrow> s\<lparr>console := console s @ [''exec error: '' @ e]\<rparr>)
      in case (if stdout \<noteq> [] then Inr stdout
               else case err of
                      None \<Rightarrow> Inl TypeError
                    | Some e \<Rightarrow> Inr (JSON_stringify_error e)) of
           Inl x \<Rightarrow> Inl x
         | Inr stdoutText \<Rightarrow>
             Inr (s1\<lparr>docs := Documents_upsert None
                               \<lparr>set_title = cmd document, set_body = Some stdoutText,
                                set_stderr = Some stderr_out, set_createdAt = Some now\<rparr>
                               gen (docs s1)\<rparr>))"

text \<open>\<^verbatim>\<open>docker.public\<close>: the same text with the other image name.\<close>

definition PublicDocker_run :: "docker_args \<Rightarrow> server \<Rightarrow> (string \<times> nat) option \<times> server" where
  "PublicDocker_run document s =
     (if Documents_count (Documents_find (cmd document) (docs s)) \<noteq> 0 then (None, s)
      else
        let cmdline = ''docker run --rm tanghaibao/tredparse-public '' @ template (cmd document)
        in (Some (cmdline, 1024 * 1000), s\<lparr>spawned := spawned s @ [(cmdline, 1024 * 1000)]\<rparr>))"

definition PublicDocker_callback ::
  "docker_args \<Rightarrow> string option \<Rightarrow> string \<Rightarrow> string \<Rightarrow> nat \<Rightarrow> string \<Rightarrow> server \<Rightarrow> error + server" where
  "PublicDocker_callback document err stdout stderr_out now gen s =
     (let s1 = (case err of
                  None \<Rightarrow> s
                | Some e \<Rightarrow> s\<lparr>console := console s @ [''exec error: '' @ e]\<rparr>)
      in case (if stdout \<noteq> [] then Inr stdout
               else case err of
                      None \<Rightarrow> Inl TypeError
                    | Some e \<Rightarrow> Inr (JSON_stringify_error e)) of
           Inl x \<Rightarrow> Inl x
         | Inr stdoutText \<Rightarrow>
             Inr (s1\<lparr>docs := Documents_upsert None
                               \<lparr>set_title = cmd document, set_body = Some stdoutText,
                                set_stderr = Some stderr_out, set_createdAt = Some now\<rparr>
                               gen (docs s1)\<rparr>))"

section \<open>The process-execution primitive\<close>

text \<open>
  What a started process does: \<open>failure\<close> is the error that \<^verbatim>\<open>exec\<close> reports for it
  (the process could not be started, or it ended with a non-zero status), as the text
  of \<^verbatim>\<open>err.toString()\<close>, and \<open>None\<close> when it reports none; \<open>out\<close> and \<open>errout\<close> are
  everything the process writes to stdout and to stderr.
\<close>

record process =
  failure :: "string option"
  out :: string
  errout :: string

text \<open>
  Modelled from the spec: the external primitive \<^verbatim>\<open>exec\<close> of \<^verbatim>\<open>child_process\<close>,
  which is not among the sources. Sections 4.3 and 6 of the specification:
  \<^verbatim>\<open>exec(fullCommandLine, {maxOutputBytes}) -> (stdout, stderr, err)\<close>, where stdout and
  stderr are each truncated to the fixed maximum size. The triple is what the callback
  receives.
\<close>

definition exec :: "nat \<Rightarrow> process \<Rightarrow> string option \<times> string \<times> string" where
  "exec maxBuffer p = (failure p, take maxBuffer (out p), take maxBuffer (errout p))"

section \<open>The rate limiter and the Method Gateway\<close>

text \<open>
  The call at the end of the methods file:
  \<^verbatim>\<open>rateLimit({ methods: [upsertDocument, removeDocument], limit: 5, timeRange: 1000 })\<close>.
\<close>

record rate_limit_options =
  methods :: "method_name list"
  limit :: nat
  timeRange :: nat

definition rateLimit_options :: rate_limit_options where
  "rateLimit_options = \<lparr>methods = [upsertDocument, removeDocument], limit = 5, timeRange = 1000\<rparr>"

text \<open>
  Modelled from the spec: the limiter behind \<^verbatim>\<open>rateLimit\<close> (\<^verbatim>\<open>../../modules/rate-limit\<close>
  is not among the sources). Section 4.2 of the specification: \<^verbatim>\<open>allow\<close> keeps, for
  each tracked method, the count of the calls observed within the window of length
  \<open>timeRange\<close>, and returns false when the count of the (method, window) exceeds
  \<open>limit\<close>; a method that is not tracked is always allowed. Of the two window
  disciplines that the specification permits, this is the fixed bucket: a window opens
  with the first call that finds none open for the method and the caller, it is over
  \<open>timeRange\<close> milliseconds later, and every call observed in it is counted, a refused
  one too.
\<close>

definition allow ::
  "rate_limit_options \<Rightarrow> method_name \<Rightarrow> string \<Rightarrow> nat \<Rightarrow> limiter \<Rightarrow> bool \<times> limiter" where
  "allow opts m caller now lim =
     (if m \<notin> set (methods opts) then (True, lim)
      else
        let w = (case lim (m, caller) of
                   None \<Rightarrow> \<lparr>started = now, calls = 0\<rparr>
                 | Some w \<Rightarrow>
                     if now < started w + timeRange opts then w
                     else \<lparr>started = now, calls = 0\<rparr>);
            n = calls w + 1
        in (n \<le> limit opts, lim((m, caller) \<mapsto> w\<lparr>calls := n\<rparr>)))"

datatype request =
    UpsertReq upsert_args
  | RemoveReq string
  | HliReq docker_args
  | PublicReq docker_args

fun method_of :: "request \<Rightarrow> method_name" where
  "method_of (UpsertReq d) = upsertDocument"
| "method_of (RemoveReq i) = removeDocument"
| "method_of (HliReq d) = HLIDocker"
| "method_of (PublicReq d) = PublicDocker"

text \<open>
  Modelled from the spec: the Method Gateway (section 4.4), which the framework
  provides. A call of a method by \<open>caller\<close> at time \<open>now\<close> first asks the limiter; a
  refused call fails with \<open>RateLimitExceeded\<close> and is not forwarded; an allowed call
  runs the method. The shape of the arguments is fixed by the types, so no call is
  refused by validation. The result of an allowed call is what the method handed to
  \<^verbatim>\<open>exec\<close>, if anything.
\<close>

definition Meteor_call ::
  "request \<Rightarrow> string \<Rightarrow> nat \<Rightarrow> string \<Rightarrow> server \<Rightarrow> (error + (string \<times> nat) option) \<times> server" where
  "Meteor_call r caller now gen s =
     (case allow rateLimit_options (method_of r) caller now (limiter s) of
        (ok, lim) \<Rightarrow>
          let s1 = s\<lparr>limiter := lim\<rparr>
          in if \<not> ok then (Inl RateLimitExceeded, s1)
             else (case r of
                     UpsertReq d \<Rightarrow> (Inr None, upsertDocument_run d gen s1)
                   | RemoveReq i \<Rightarrow> (Inr None, removeDocument_run i s1)
                   | HliReq d \<Rightarrow> (case HLIDocker_run d s1 of (x, s2) \<Rightarrow> (Inr x, s2))
                   | PublicReq d \<Rightarrow> (case PublicDocker_run d s1 of (x, s2) \<Rightarrow> (Inr x, s2))))"

text \<open>
  The end of a started process: \<^verbatim>\<open>exec\<close> delivers the outcome to the callback of the
  method that started it. A callback that throws leaves the state as it was.
\<close>

definition complete ::
  "request \<Rightarrow> nat \<Rightarrow> process \<Rightarrow> nat \<Rightarrow> string \<Rightarrow> server \<Rightarrow> server" where
  "complete r maxBuffer p now gen s =
     (case exec maxBuffer p of
        (err, stdout, stderr_out) \<Rightarrow>
          (case r of
             HliReq d \<Rightarrow>
               (case HLIDocker_callback d err stdout stderr_out now gen s of
                  Inl x \<Rightarrow> s | Inr s' \<Rightarrow> s')
           | PublicReq d \<Rightarrow>
               (case PublicDocker_callback d err stdout stderr_out now gen s of
                  Inl x \<Rightarrow> s | Inr s' \<Rightarrow> s')
           | UpsertReq d \<Rightarrow> s
           | RemoveReq i \<Rightarrow> s))"

text \<open>
  One operation run to its end before the next starts: the call, and when it started
  a process, the end of that process. The circumstances of the operation are the
  caller, the time of the call, the identifier that the store's generator would hand
  out, what the process does, and the time at which it ends.
\<close>

record circumstances =
  caller_of :: string
  called_at :: nat
  gen_id :: string
  proc :: process
  ended_at :: nat

definition perform :: "request \<Rightarrow> circumstances \<Rightarrow> server \<Rightarrow> server" where
  "perform r e s =
     (case Meteor_call r (caller_of e) (called_at e) (gen_id e) s of
        (Inl x, s1) \<Rightarrow> s1
      | (Inr None, s1) \<Rightarrow> s1
      | (Inr (Some (cmdline, maxBuffer)), s1) \<Rightarrow>
          complete r maxBuffer (proc e) (ended_at e) (gen_id e) s1)"

fun perform_all :: "(request \<times> circumstances) list \<Rightarrow> server \<Rightarrow> server" where
  "perform_all [] s = s"
| "perform_all ((r, e) # ops) s = perform_all ops (perform r e s)"

definition empty_server :: server where
  "empty_server = \<lparr>docs = [], spawned = [], console = [], limiter = (\<lambda>k. None)\<rparr>"

text \<open>
  A series of calls by one caller, each with its time and the identifier the generator
  would hand out; the result lists what every call returned.
\<close>

fun Meteor_calls ::
  "string \<Rightarrow> (request \<times> nat \<times> string) list \<Rightarrow> server \<Rightarrow> (error + (string \<times> nat) option) list" where
  "Meteor_calls caller [] s = []"
| "Meteor_calls caller ((r, now, gen) # rest) s =
     (case Meteor_call r caller now gen s of (x, s') \<Rightarrow> x # Meteor_calls caller rest s')"

section \<open>Notions used by the properties\<close>

text \<open>
  The text that \<^verbatim>\<open>docker.hli\<close> and \<^verbatim>\<open>docker.public\<close> have in common, with the
  container-runtime prefix as a parameter.
\<close>

definition Dispatcher_run ::
  "string \<Rightarrow> docker_args \<Rightarrow> server \<Rightarrow> (string \<times> nat) option \<times> server" where
  "Dispatcher_run prefix document s =
     (if Documents_count (Documents_find (cmd document) (docs s)) \<noteq> 0 then (None, s)
      else
        let cmdline = prefix @ '' '' @ template (cmd document)
        in (Some (cmdline, 1024 * 1000), s\<lparr>spawned := spawned s @ [(cmdline, 1024 * 1000)]\<rparr>))"

text \<open>
  The reading of the payload, to state that the payload carries the text of the error:
  what a JSON reader returns for the member \<^verbatim>\<open>error\<close> of a text of the form
  \<^verbatim>\<open>{"error":"..."}\<close>. A string ends at the first quotation mark that no backslash
  precedes; after a backslash come one of the characters \<^verbatim>\<open>" \ / b t n f r\<close> or
  \<^verbatim>\<open>u\<close> and four hexadecimal digits; a bare control character is refused.
\<close>

definition hex_value :: "char \<Rightarrow> nat option" where
  "hex_value c =
     (let n = (of_char c :: nat)
      in if 48 \<le> n \<and> n \<le> 57 then Some (n - 48)
         else if 97 \<le> n \<and> n \<le> 102 then Some (n - 87)
         else if 65 \<le> n \<and> n \<le> 70 then Some (n - 55)
         else None)"

definition simple_escape :: "char \<Rightarrow> char option" where
  "simple_escape x =
     (if x = CHR 0x22 then Some (CHR 0x22)
      else if x = CHR 0x5C then Some (CHR 0x5C)
      else if x = CHR ''/'' then Some (CHR ''/'')
      else if x = CHR ''b'' then Some (CHR 0x08)
      else if x = CHR ''t'' then Some (CHR 0x09)
      else if x = CHR ''n'' then Some (CHR 0x0A)
      else if x = CHR ''f'' then Some (CHR 0x0C)
      else if x = CHR ''r'' then Some (CHR 0x0D)
      else None)"

definition unicode_escape :: "char \<Rightarrow> char \<Rightarrow> char \<Rightarrow> char \<Rightarrow> char option" where
  "unicode_escape a b h l =
     (case (hex_value a, hex_value b, hex_value h, hex_value l) of
        (Some p, Some q, Some u, Some v) \<Rightarrow>
          (if ((p * 16 + q) * 16 + u) * 16 + v < 256
           then Some (char_of (((p * 16 + q) * 16 + u) * 16 + v)) else None)
      | _ \<Rightarrow> None)"

fun json_string_body :: "string \<Rightarrow> (string \<times> string) option" where
  "json_string_body [] = None"
| "json_string_body (c # cs) =
     (if c = CHR 0x22 then Some ([], cs)
      else if c = CHR 0x5C then
        (case cs of
           [] \<Rightarrow> None
         | x # rest \<Rightarrow>
             if x = CHR ''u'' then
               (case rest of
                  a # b # h # l # rest' \<Rightarrow>
                    (case unicode_escape a b h l of
                       None \<Rightarrow> None
                     | Some y \<Rightarrow> map_option (\<lambda>(t, r). (y # t, r)) (json_string_body rest'))
                | _ \<Rightarrow> None)
             else
               (case simple_escape x of
                  None \<Rightarrow> None
                | Some y \<Rightarrow> map_option (\<lambda>(t, r). (y # t, r)) (json_string_body rest)))
      else if (of_char c :: nat) < 32 then None
      else map_option (\<lambda>(t, r). (c # t, r)) (json_string_body cs))"

definition JSON_parse_error :: "string \<Rightarrow> string option" where
  \<open>JSON_parse_error text =
     (if take 10 text = ''{"error":"'' then
        (case json_string_body (drop 10 text) of
           Some (e, rest) \<Rightarrow> if rest = ''}'' then Some e else None
         | None \<Rightarrow> None)
      else None)\<close>

text \<open>
  A Record has output when its body or its stderr is a non-empty text. The Record of a
  command that printed to stdout only has an empty stderr, so one non-empty field is
  enough. The invariant of the data model: no two Records with a title and with output
  have the same title.
\<close>

definition has_output :: "doc_record \<Rightarrow> bool" where
  "has_output r = (body r \<notin> {None, Some []} \<or> stderr r \<notin> {None, Some []})"

definition one_record_per_command :: "collection \<Rightarrow> bool" where
  "one_record_per_command c =
     distinct (map title (filter (\<lambda>r. title r \<noteq> None \<and> has_output r) c))"

text \<open>The titles of the Records that have one, in the order of the collection.\<close>

definition titles :: "collection \<Rightarrow> string option list" where
  "titles c = map title (filter (\<lambda>r. title r \<noteq> None) c)"

text \<open>A request other than a \<^verbatim>\<open>documents.upsert\<close> that lists a title.\<close>

definition untitled_upsert :: "request \<Rightarrow> bool" where
  "untitled_upsert q = (case q of UpsertReq d \<Rightarrow> arg_title d = None | _ \<Rightarrow> True)"

section \<open>Facts about the store and the limiter\<close>

lemma apply_set_idem: "apply_set m (apply_set m r) = apply_set m r"
  by (simp add: apply_set_def split: option.splits)

lemma doc_id_apply_set: "doc_id (apply_set m r) = doc_id r"
  by (simp add: apply_set_def)

lemma update_first_append:
  "i \<notin> set (map doc_id c) \<Longrightarrow> update_first i f (c @ c') = c @ update_first i f c'"
  by (induction c) auto

lemma map_doc_id_update_first:
  "(\<And>r. doc_id (f r) = doc_id r) \<Longrightarrow> map doc_id (update_first i f c) = map doc_id c"
  by (induction c) auto

lemma ids_update_first:
  "(\<And>r. doc_id (f r) = doc_id r) \<Longrightarrow> doc_id ` set (update_first i f c) = doc_id ` set c"
  using map_doc_id_update_first [of f i c] by (metis set_map)

lemma update_first_idem:
  "(\<And>r. doc_id (f r) = doc_id r) \<Longrightarrow> (\<And>r. f (f r) = f r) \<Longrightarrow>
   update_first i f (update_first i f c) = update_first i f c"
  by (induction c) auto

lemma Documents_upsert_idem:
  "Documents_upsert (Some i) m g2 (Documents_upsert (Some i) m g1 c)
     = Documents_upsert (Some i) m g1 c"
  by (simp add: Documents_upsert_def ids_update_first doc_id_apply_set
      update_first_idem apply_set_idem update_first_append new_document_def)

lemma filter_id_update_first:
  "distinct (map doc_id c) \<Longrightarrow> i \<in> set (map doc_id c) \<Longrightarrow> (\<And>r. doc_id (f r) = doc_id r) \<Longrightarrow>
   \<exists>r. filter (\<lambda>r. doc_id r = i) c = [r] \<and> filter (\<lambda>r. doc_id r = i) (update_first i f c) = [f r]"
proof (induction c)
  case Nil
  then show ?case by simp
next
  case (Cons a c)
  show ?case
  proof (cases "doc_id a = i")
    case True
    from Cons.prems(1) have "doc_id a \<notin> doc_id ` set c"
      by simp
    then have "\<forall>x \<in> set c. doc_id x \<noteq> doc_id a"
      by (metis imageI)
    with True have "filter (\<lambda>r. doc_id r = i) c = []"
      by (simp add: filter_empty_conv)
    with True Cons.prems(3) show ?thesis by simp
  next
    case False
    with Cons show ?thesis by auto
  qed
qed

lemma JSON_stringify_error_example:
  \<open>JSON_stringify_error [CHR ''a'', CHR 0x22, CHR 0x0A, CHR 0x1F]
     = ''{"error":"a'' @ [CHR 0x5C, CHR 0x22, CHR 0x5C, CHR ''n'', CHR 0x5C] @ ''u001f"}''\<close>
  by code_simp

lemma hex_value_digit:
  "d < 16 \<Longrightarrow> hex_value (if d < 10 then char_of (48 + d) else char_of (87 + d)) = Some d"
  by (simp add: hex_value_def)

lemma hex_value_hex_digit: "hex_value (hex_digit k) = Some (k mod 16)"
  using hex_value_digit [of "k mod 16"] by (simp add: hex_digit_def Let_def)

lemma hex_value_zero: "hex_value (CHR ''0'') = Some 0"
  by (simp add: hex_value_def)

lemma unicode_escape_control:
  "unicode_escape (CHR ''0'') (CHR ''0'') (hex_digit (of_char c div 16)) (hex_digit (of_char c))
     = Some c"
proof -
  have "(of_char c :: nat) < 16 * 16"
    by simp
  then have "(of_char c :: nat) div 16 < 16"
    by (rule less_mult_imp_div_less)
  then have "(of_char c :: nat) div 16 mod 16 = of_char c div 16"
    by simp
  moreover have "((of_char c :: nat) div 16) * 16 + of_char c mod 16 = of_char c"
    by simp
  ultimately show ?thesis
    by (simp add: unicode_escape_def hex_value_hex_digit hex_value_zero)
qed

lemma json_string_body_escape:
  "json_string_body (json_escape c @ xs)
     = map_option (\<lambda>(t, r). (c # t, r)) (json_string_body xs)"
  by (simp add: json_escape_def simple_escape_def unicode_escape_control)

lemma json_string_body_escaped:
  "json_string_body (concat (map json_escape e) @ CHR 0x22 # rest) = Some (e, rest)"
  by (induction e) (simp_all add: json_string_body_escape)

lemma JSON_parse_stringify: "JSON_parse_error (JSON_stringify_error e) = Some e"
  using json_string_body_escaped [of e "''}''"]
  by (simp add: JSON_parse_error_def JSON_stringify_error_def)

lemma rateLimit_options_fields:
  "methods rateLimit_options = [upsertDocument, removeDocument]"
  "limit rateLimit_options = 5"
  "timeRange rateLimit_options = 1000"
  by (simp_all add: rateLimit_options_def)

lemma allow_tracked:
  assumes "m = upsertDocument \<or> m = removeDocument"
  shows "allow rateLimit_options m c now lim =
     (let w = (case lim (m, c) of
                   None \<Rightarrow> \<lparr>started = now, calls = 0\<rparr>
                 | Some w \<Rightarrow> if now < started w + 1000 then w else \<lparr>started = now, calls = 0\<rparr>)
      in (calls w + 1 \<le> 5, lim((m, c) \<mapsto> w\<lparr>calls := calls w + 1\<rparr>)))"
  using assms by (auto simp: allow_def rateLimit_options_fields Let_def split: option.splits)

lemma allow_docker:
  "m = HLIDocker \<or> m = PublicDocker \<Longrightarrow> allow rateLimit_options m c now lim = (True, lim)"
  by (auto simp: allow_def rateLimit_options_fields)

lemma limiter_Meteor_call:
  "limiter (snd (Meteor_call q c now g s))
     = snd (allow rateLimit_options (method_of q) c now (limiter s))"
  by (cases q)
     (simp_all add: Meteor_call_def upsertDocument_run_def removeDocument_run_def
        HLIDocker_run_def PublicDocker_run_def Let_def split: prod.splits)

lemma refused_Meteor_call:
  "(fst (Meteor_call q c now g s) = Inl RateLimitExceeded)
     = (\<not> fst (allow rateLimit_options (method_of q) c now (limiter s)))"
  by (cases q) (simp_all add: Meteor_call_def Let_def split: prod.splits)

lemma Meteor_calls_Cons:
  "Meteor_calls c ((q, now, g) # rest) s
     = fst (Meteor_call q c now g s) # Meteor_calls c rest (snd (Meteor_call q c now g s))"
  by (simp add: split_beta)

lemmas run_defs = perform_def Meteor_call_def allow_def rateLimit_options_def complete_def
  exec_def HLIDocker_run_def PublicDocker_run_def HLIDocker_callback_def
  PublicDocker_callback_def Documents_count_def Documents_find_def Documents_upsert_def
  Documents_findOne_def Documents_remove_def apply_set_def new_document_def empty_server_def
  template_def Let_def upsertDocument_run_def removeDocument_run_def

section \<open>Dedup check\<close>

text \<open>
  C1. When the store already holds a Record whose title equals the submitted command,
  the run of \<^verbatim>\<open>docker.hli\<close> and the run of \<^verbatim>\<open>docker.public\<close> return before \<^verbatim>\<open>exec\<close>:
  no command line is handed to \<^verbatim>\<open>exec\<close> and the whole state, the store and the list
  of started processes included, is the one before the call. The same holds for the
  call through the Gateway and for the operation run to its end.
\<close>

theorem dedup_hit_skips:
  assumes "r \<in> set (docs s)" and "title r = Some c"
  shows "HLIDocker_run \<lparr>docker_id = i, cmd = Some c\<rparr> s = (None, s)
       \<and> PublicDocker_run \<lparr>docker_id = i, cmd = Some c\<rparr> s = (None, s)
       \<and> Meteor_call (HliReq \<lparr>docker_id = i, cmd = Some c\<rparr>) caller now gen s = (Inr None, s)
       \<and> Meteor_call (PublicReq \<lparr>docker_id = i, cmd = Some c\<rparr>) caller now gen s = (Inr None, s)
       \<and> perform (HliReq \<lparr>docker_id = i, cmd = Some c\<rparr>) e s = s
       \<and> perform (PublicReq \<lparr>docker_id = i, cmd = Some c\<rparr>) e s = s"
proof -
  from assms have "r \<in> set (Documents_find (Some c) (docs s))"
    by (simp add: Documents_find_def)
  then have "Documents_count (Documents_find (Some c) (docs s)) \<noteq> 0"
    by (auto simp: Documents_count_def)
  then show ?thesis
    by (simp add: HLIDocker_run_def PublicDocker_run_def Meteor_call_def allow_docker perform_def)
qed

theorem dedup_hit_skips_witness:
  "HLIDocker_run \<lparr>docker_id = None, cmd = Some ''echo hi''\<rparr>
         (empty_server\<lparr>docs :=
           [\<lparr>doc_id = ''a1'', title = Some ''echo hi'', body = Some ''hi'', stderr = Some [],
             createdAt = Some 7\<rparr>]\<rparr>)
       = (None, empty_server\<lparr>docs :=
           [\<lparr>doc_id = ''a1'', title = Some ''echo hi'', body = Some ''hi'', stderr = Some [],
             createdAt = Some 7\<rparr>]\<rparr>)
   \<and> PublicDocker_run \<lparr>docker_id = None, cmd = Some ''echo hi''\<rparr>
         (empty_server\<lparr>docs :=
           [\<lparr>doc_id = ''a1'', title = Some ''echo hi'', body = Some ''hi'', stderr = Some [],
             createdAt = Some 7\<rparr>]\<rparr>)
       = (None, empty_server\<lparr>docs :=
           [\<lparr>doc_id = ''a1'', title = Some ''echo hi'', body = Some ''hi'', stderr = Some [],
             createdAt = Some 7\<rparr>]\<rparr>)"
proof -
  have h: "\<lparr>doc_id = ''a1'', title = Some ''echo hi'', body = Some ''hi'', stderr = Some [],
             createdAt = Some 7\<rparr>
           \<in> set (docs (empty_server\<lparr>docs :=
               [\<lparr>doc_id = ''a1'', title = Some ''echo hi'', body = Some ''hi'', stderr = Some [],
                 createdAt = Some 7\<rparr>]\<rparr>))"
    by simp
  from dedup_hit_skips [OF h, of "''echo hi''" None] show ?thesis
    by simp
qed

section \<open>The identifier of the persisted Record\<close>

text \<open>
  C2. The claim: the Record written when the process is over is keyed by the
  identifier the caller supplied. The code at the input
  \<^verbatim>\<open>docker.hli({ _id: "abc", cmd: "echo hi" })\<close> on the empty store, the process printing
  \<^verbatim>\<open>hi\<close> and a newline: the Record is stored under the generated identifier, and the
  lookup by the supplied identifier finds nothing.
\<close>

theorem presupplied_id_is_dropped:
  "docs (perform (HliReq \<lparr>docker_id = Some ''abc'', cmd = Some ''echo hi''\<rparr>)
           \<lparr>caller_of = ''conn1'', called_at = 0, gen_id = ''G1'',
            proc = \<lparr>failure = None, out = [CHR ''h'', CHR ''i'', CHR 0x0A], errout = []\<rparr>,
            ended_at = 1200\<rparr>
           empty_server)
     = [\<lparr>doc_id = ''G1'', title = Some ''echo hi'', body = Some [CHR ''h'', CHR ''i'', CHR 0x0A],
         stderr = Some [], createdAt = Some 1200\<rparr>]
   \<and> Documents_findOne ''abc''
        (docs (perform (HliReq \<lparr>docker_id = Some ''abc'', cmd = Some ''echo hi''\<rparr>)
           \<lparr>caller_of = ''conn1'', called_at = 0, gen_id = ''G1'',
            proc = \<lparr>failure = None, out = [CHR ''h'', CHR ''i'', CHR 0x0A], errout = []\<rparr>,
            ended_at = 1200\<rparr>
           empty_server)) = None"
  by (simp add: run_defs)

section \<open>Which methods the limiter covers\<close>

text \<open>
  C3, the claim as stated fails: six calls of \<^verbatim>\<open>docker.hli\<close> by one caller within six
  milliseconds are all forwarded, the sixth too; each of them reaches \<^verbatim>\<open>exec\<close>.
\<close>

theorem sixth_dispatch_counterexample:
  "Meteor_calls ''conn1''
     [(HliReq \<lparr>docker_id = None, cmd = Some ''c1''\<rparr>, 0, ''G1''),
      (HliReq \<lparr>docker_id = None, cmd = Some ''c2''\<rparr>, 1, ''G2''),
      (HliReq \<lparr>docker_id = None, cmd = Some ''c3''\<rparr>, 2, ''G3''),
      (HliReq \<lparr>docker_id = None, cmd = Some ''c4''\<rparr>, 3, ''G4''),
      (HliReq \<lparr>docker_id = None, cmd = Some ''c5''\<rparr>, 4, ''G5''),
      (HliReq \<lparr>docker_id = None, cmd = Some ''c6''\<rparr>, 5, ''G6'')]
     empty_server
   = [Inr (Some (''docker run --rm tanghaibao/tredparse c1'', 1024000)),
      Inr (Some (''docker run --rm tanghaibao/tredparse c2'', 1024000)),
      Inr (Some (''docker run --rm tanghaibao/tredparse c3'', 1024000)),
      Inr (Some (''docker run --rm tanghaibao/tredparse c4'', 1024000)),
      Inr (Some (''docker run --rm tanghaibao/tredparse c5'', 1024000)),
      Inr (Some (''docker run --rm tanghaibao/tredparse c6'', 1024000))]"
  by (simp add: run_defs)

text \<open>
  C3, amended. The methods \<^verbatim>\<open>documents.upsert\<close> and \<^verbatim>\<open>documents.remove\<close> are subject
  to the limiter: a call by a caller who already made five calls of that method in the
  window that is still open fails with \<open>RateLimitExceeded\<close> and is not forwarded, the
  store and the list of started processes stay as they are. The methods
  \<^verbatim>\<open>docker.hli\<close> and \<^verbatim>\<open>docker.public\<close> are not rate-limited: a call of them never
  fails with \<open>RateLimitExceeded\<close> and leaves the limiter as it is.
\<close>

theorem limiter_covers_documents_methods:
  "(method_of q \<in> {upsertDocument, removeDocument} \<and> limiter s (method_of q, c) = Some w
      \<and> now < started w + 1000 \<and> 5 \<le> calls w
     \<longrightarrow> fst (Meteor_call q c now g s) = Inl RateLimitExceeded
         \<and> docs (snd (Meteor_call q c now g s)) = docs s
         \<and> spawned (snd (Meteor_call q c now g s)) = spawned s)
   \<and> (method_of q' \<in> {HLIDocker, PublicDocker}
     \<longrightarrow> fst (Meteor_call q' c' now' g' s') \<noteq> Inl RateLimitExceeded
         \<and> limiter (snd (Meteor_call q' c' now' g' s')) = limiter s')"
proof (intro conjI impI)
  assume a: "method_of q \<in> {upsertDocument, removeDocument} \<and> limiter s (method_of q, c) = Some w
      \<and> now < started w + 1000 \<and> 5 \<le> calls w"
  then have "\<not> fst (allow rateLimit_options (method_of q) c now (limiter s))"
    by (auto simp: allow_def rateLimit_options_fields Let_def)
  then obtain lim where "allow rateLimit_options (method_of q) c now (limiter s) = (False, lim)"
    by (cases "allow rateLimit_options (method_of q) c now (limiter s)") auto
  then have r: "Meteor_call q c now g s = (Inl RateLimitExceeded, s\<lparr>limiter := lim\<rparr>)"
    by (simp add: Meteor_call_def)
  show "fst (Meteor_call q c now g s) = Inl RateLimitExceeded"
    and "docs (snd (Meteor_call q c now g s)) = docs s"
    and "spawned (snd (Meteor_call q c now g s)) = spawned s"
    by (simp_all add: r)
next
  assume b: "method_of q' \<in> {HLIDocker, PublicDocker}"
  then have "allow rateLimit_options (method_of q') c' now' (limiter s') = (True, limiter s')"
    by (auto simp: allow_docker)
  then show "fst (Meteor_call q' c' now' g' s') \<noteq> Inl RateLimitExceeded"
    and "limiter (snd (Meteor_call q' c' now' g' s')) = limiter s'"
    by (simp_all add: refused_Meteor_call limiter_Meteor_call)
qed

theorem limiter_covers_documents_methods_witness:
  "fst (Meteor_call (RemoveReq ''a1'') ''conn1'' 500 ''G1''
         (empty_server\<lparr>limiter :=
            (\<lambda>k. None)((removeDocument, ''conn1'') \<mapsto> \<lparr>started = 0, calls = 5\<rparr>)\<rparr>))
     = Inl RateLimitExceeded
   \<and> fst (Meteor_call (HliReq \<lparr>docker_id = None, cmd = Some ''c6''\<rparr>) ''conn1'' 500 ''G1''
         (empty_server\<lparr>limiter :=
            (\<lambda>k. None)((HLIDocker, ''conn1'') \<mapsto> \<lparr>started = 0, calls = 5\<rparr>)\<rparr>))
     \<noteq> Inl RateLimitExceeded"
  using limiter_covers_documents_methods
    [where q = "RemoveReq ''a1''" and c = "''conn1''" and now = 500 and g = "''G1''"
       and w = "\<lparr>started = 0, calls = 5\<rparr>"
       and s = "empty_server\<lparr>limiter :=
            (\<lambda>k. None)((removeDocument, ''conn1'') \<mapsto> \<lparr>started = 0, calls = 5\<rparr>)\<rparr>"
       and q' = "HliReq \<lparr>docker_id = None, cmd = Some ''c6''\<rparr>" and c' = "''conn1''"
       and now' = 500 and g' = "''G1''"
       and s' = "empty_server\<lparr>limiter :=
            (\<lambda>k. None)((HLIDocker, ''conn1'') \<mapsto> \<lparr>started = 0, calls = 5\<rparr>)\<rparr>"]
  by simp

section \<open>The bound on the captured output\<close>

text \<open>
  C4, the claim as stated fails: a process that prints 1,000,001 characters to stdout
  and ends without error leaves a Record whose body has 1,000,001 characters, more than
  1,000,000.
\<close>

theorem capture_cap_counterexample:
  "map (map_option length \<circ> body)
     (docs (perform (HliReq \<lparr>docker_id = None, cmd = Some ''yes''\<rparr>)
           \<lparr>caller_of = ''conn1'', called_at = 0, gen_id = ''G1'',
            proc = \<lparr>failure = None, out = replicate 1000001 (CHR ''y''), errout = []\<rparr>,
            ended_at = 1200\<rparr>
           empty_server))
   = [Some 1000001]"
  by (simp add: run_defs)

text \<open>
  C4, amended. For every process started through \<^verbatim>\<open>docker.hli\<close> or \<^verbatim>\<open>docker.public\<close>,
  the captured stdout and stderr are each bounded by 1,024,000 characters (the option
  \<^verbatim>\<open>maxBuffer: 1024 * 1000\<close>): the stderr of the Record that the operation adds never
  exceeds 1,024,000 characters, and neither does its body whenever the process printed
  anything to stdout (the body is the captured stdout then).
\<close>

theorem capture_bounded:
  assumes "r \<in> set (drop (length (docs s)) (docs (perform q e s)))"
    and "q = HliReq d \<or> q = PublicReq d"
  shows "(case stderr r of None \<Rightarrow> False | Some x \<Rightarrow> length x \<le> 1024 * 1000)
       \<and> (out (proc e) \<noteq> [] \<longrightarrow>
            (case body r of None \<Rightarrow> False | Some x \<Rightarrow> length x \<le> 1024 * 1000))"
  using assms
  by (auto simp: perform_def Meteor_call_def allow_docker complete_def
      exec_def HLIDocker_run_def PublicDocker_run_def HLIDocker_callback_def
      PublicDocker_callback_def Documents_upsert_def apply_set_def new_document_def Let_def
      split: if_splits option.splits)

theorem capture_bounded_witness:
  "(case stderr \<lparr>doc_id = ''G1'', title = Some ''yes'',
                  body = Some (replicate 1000001 (CHR ''y'')), stderr = Some [],
                  createdAt = Some 1200\<rparr> of
      None \<Rightarrow> False | Some x \<Rightarrow> length x \<le> 1024 * 1000)
   \<and> (case body \<lparr>doc_id = ''G1'', title = Some ''yes'',
                  body = Some (replicate 1000001 (CHR ''y'')), stderr = Some [],
                  createdAt = Some 1200\<rparr> of
      None \<Rightarrow> False | Some x \<Rightarrow> length x \<le> 1024 * 1000)"
proof -
  have h: "\<lparr>doc_id = ''G1'', title = Some ''yes'', body = Some (replicate 1000001 (CHR ''y'')),
             stderr = Some [], createdAt = Some 1200\<rparr>
           \<in> set (drop (length (docs empty_server))
                (docs (perform (HliReq \<lparr>docker_id = None, cmd = Some ''yes''\<rparr>)
                   \<lparr>caller_of = ''conn1'', called_at = 0, gen_id = ''G1'',
                    proc = \<lparr>failure = None, out = replicate 1000001 (CHR ''y''), errout = []\<rparr>,
                    ended_at = 1200\<rparr>
                   empty_server)))"
    by (simp add: run_defs)
  from capture_bounded [OF h, of "\<lparr>docker_id = None, cmd = Some ''yes''\<rparr>"]
  show ?thesis by simp
qed

section \<open>What the callback persists\<close>

text \<open>
  C5. When the process is over, the callback of \<^verbatim>\<open>docker.hli\<close> and the callback of
  \<^verbatim>\<open>docker.public\<close> persist one Record under the generated identifier, with the
  command as its title and the captured stderr verbatim. When the captured stdout is
  non-empty the body is that stdout verbatim, whether the process failed or not. When
  the captured stdout is empty and the process failed with the error \<open>e\<close>, the body is
  the payload \<^verbatim>\<open>JSON.stringify({ error: err.toString() })\<close>: a non-empty text, so not
  the stdout, from which a JSON reader gets the text of the error back. In the one
  remaining case, an empty stdout without error, the callback throws and persists
  nothing.
\<close>

theorem body_is_stdout_or_error_payload:
  "(case HLIDocker_callback d err (c # cs) se now gen s of
      Inl x \<Rightarrow> False
    | Inr s' \<Rightarrow>
        docs s' = docs s @ [\<lparr>doc_id = gen, title = cmd d, body = Some (c # cs),
                              stderr = Some se, createdAt = Some now\<rparr>])
   \<and> (case HLIDocker_callback d (Some e) [] se now gen s of
      Inl x \<Rightarrow> False
    | Inr s' \<Rightarrow>
        docs s' = docs s @ [\<lparr>doc_id = gen, title = cmd d, body = Some (JSON_stringify_error e),
                              stderr = Some se, createdAt = Some now\<rparr>])
   \<and> (case PublicDocker_callback d err (c # cs) se now gen s of
      Inl x \<Rightarrow> False
    | Inr s' \<Rightarrow>
        docs s' = docs s @ [\<lparr>doc_id = gen, title = cmd d, body = Some (c # cs),
                              stderr = Some se, createdAt = Some now\<rparr>])
   \<and> (case PublicDocker_callback d (Some e) [] se now gen s of
      Inl x \<Rightarrow> False
    | Inr s' \<Rightarrow>
        docs s' = docs s @ [\<lparr>doc_id = gen, title = cmd d, body = Some (JSON_stringify_error e),
                              stderr = Some se, createdAt = Some now\<rparr>])
   \<and> JSON_parse_error (JSON_stringify_error e) = Some e
   \<and> JSON_stringify_error e \<noteq> []
   \<and> HLIDocker_callback d None [] se now gen s = Inl TypeError
   \<and> PublicDocker_callback d None [] se now gen s = Inl TypeError"
proof (intro conjI)
  show "JSON_parse_error (JSON_stringify_error e) = Some e"
    by (rule JSON_parse_stringify)
  show "JSON_stringify_error e \<noteq> []"
    by (simp add: JSON_stringify_error_def)
qed (simp_all add: HLIDocker_callback_def PublicDocker_callback_def Let_def Documents_upsert_def
       apply_set_def new_document_def split: option.splits)

theorem body_is_stdout_or_error_payload_witness:
  "(case HLIDocker_callback \<lparr>docker_id = None, cmd = Some ''ls''\<rparr> (Some ''boom'') []
           ''no such file'' 5 ''G1'' empty_server of
      Inl x \<Rightarrow> False
    | Inr s' \<Rightarrow>
        docs s' = docs empty_server
          @ [\<lparr>doc_id = ''G1'', title = cmd \<lparr>docker_id = None, cmd = Some ''ls''\<rparr>,
               body = Some (JSON_stringify_error ''boom''),
               stderr = Some ''no such file'', createdAt = Some 5\<rparr>])
   \<and> JSON_parse_error (JSON_stringify_error ''boom'') = Some ''boom''"
  using body_is_stdout_or_error_payload
    [where d = "\<lparr>docker_id = None, cmd = Some ''ls''\<rparr>" and e = "''boom''"
       and se = "''no such file''" and now = 5 and gen = "''G1''" and s = empty_server
       and c = "CHR ''x''" and cs = "[]" and err = None]
  by blast

section \<open>One Record per command\<close>

lemma titles_append: "titles (c @ c') = titles c @ titles c'"
  by (simp add: titles_def)

lemma distinct_map_filter_left:
  "distinct (map f (filter P xs)) \<Longrightarrow> distinct (map f (filter (\<lambda>x. Q x \<and> P x) xs))"
  by (induction xs) (auto split: if_splits)

lemma distinct_map_filter_right:
  "distinct (map f (filter P xs)) \<Longrightarrow> distinct (map f (filter (\<lambda>x. P x \<and> Q x) xs))"
  by (induction xs) (auto split: if_splits)

lemma titles_remove: "distinct (titles c) \<Longrightarrow> distinct (titles (Documents_remove i c))"
  unfolding titles_def Documents_remove_def filter_filter
  by (rule distinct_map_filter_left)

lemma titles_update_first:
  "(\<And>r. title (f r) = title r) \<Longrightarrow> titles (update_first i f c) = titles c"
  by (induction c) (auto simp: titles_def)

lemma titles_new_untitled: "set_title m = None \<Longrightarrow> titles [apply_set m (new_document i)] = []"
  by (simp add: titles_def apply_set_def new_document_def)

lemma title_apply_set_untitled: "set_title m = None \<Longrightarrow> title (apply_set m r) = title r"
  by (simp add: apply_set_def)

lemma titles_upsert_untitled:
  "set_title m = None \<Longrightarrow> titles (Documents_upsert sel m g c) = titles c"
  by (simp add: Documents_upsert_def titles_append titles_update_first titles_new_untitled
      title_apply_set_untitled split: option.splits)

lemma titles_upsert_new:
  assumes "distinct (titles c)" and "Documents_find t c = []"
  shows "distinct (titles (Documents_upsert None
           \<lparr>set_title = t, set_body = b, set_stderr = e, set_createdAt = a\<rparr> g c))"
proof (cases t)
  case None
  then show ?thesis using assms(1)
    by (simp add: titles_upsert_untitled)
next
  case (Some x)
  from assms(2) have "\<forall>r \<in> set c. title r \<noteq> t"
    by (simp add: Documents_find_def filter_empty_conv)
  then have "t \<notin> set (titles c)"
    by (auto simp: titles_def)
  with Some assms(1) show ?thesis
    by (simp add: Documents_upsert_def titles_append apply_set_def new_document_def titles_def)
qed

lemma titles_callback:
  assumes "distinct (titles (docs s))" and "Documents_find (cmd d) (docs s) = []"
    and "HLIDocker_callback d err so se now g s = Inr s'"
  shows "distinct (titles (docs s'))"
proof -
  from assms(3) obtain b where
    "docs s' = Documents_upsert None
       \<lparr>set_title = cmd d, set_body = b, set_stderr = Some se, set_createdAt = Some now\<rparr>
       g (docs s)"
    by (auto simp: HLIDocker_callback_def Let_def split: if_splits option.splits)
  with titles_upsert_new [OF assms(1,2)] show ?thesis by simp
qed

lemma titles_perform:
  assumes "distinct (titles (docs s))" and "untitled_upsert q"
  shows "distinct (titles (docs (perform q e s)))"
proof (cases q)
  case (UpsertReq d)
  with assms show ?thesis
    by (auto simp: perform_def Meteor_call_def Let_def upsertDocument_run_def untitled_upsert_def
        titles_upsert_untitled split: prod.splits sum.splits option.splits)
next
  case (RemoveReq i)
  with assms show ?thesis
    by (auto simp: perform_def Meteor_call_def Let_def removeDocument_run_def titles_remove
        split: prod.splits sum.splits option.splits)
next
  case (HliReq d)
  show ?thesis
  proof (cases "Documents_find (cmd d) (docs s) = []")
    case True
    then show ?thesis
      using assms(1) titles_callback [of "s\<lparr>spawned := x\<rparr>" d for x] HliReq
      by (auto simp: perform_def Meteor_call_def Let_def allow_docker HLIDocker_run_def
          Documents_count_def complete_def exec_def split: sum.splits)
  next
    case False
    then show ?thesis using assms(1) HliReq
      by (simp add: perform_def Meteor_call_def Let_def allow_docker HLIDocker_run_def
          Documents_count_def)
  qed
next
  case (PublicReq d)
  have cb: "PublicDocker_callback = HLIDocker_callback"
    by (intro ext) (simp add: PublicDocker_callback_def HLIDocker_callback_def)
  show ?thesis
  proof (cases "Documents_find (cmd d) (docs s) = []")
    case True
    then show ?thesis
      using assms(1) titles_callback [of "s\<lparr>spawned := x\<rparr>" d for x] PublicReq
      by (auto simp: perform_def Meteor_call_def Let_def allow_docker PublicDocker_run_def
          Documents_count_def complete_def exec_def cb split: sum.splits)
  next
    case False
    then show ?thesis using assms(1) PublicReq
      by (simp add: perform_def Meteor_call_def Let_def allow_docker PublicDocker_run_def
          Documents_count_def)
  qed
qed

lemma titles_perform_all:
  "distinct (titles (docs s)) \<Longrightarrow> \<forall>x \<in> set ops. untitled_upsert (fst x) \<Longrightarrow>
   distinct (titles (docs (perform_all ops s)))"
  by (induction ops s rule: perform_all.induct) (auto simp: titles_perform)

lemma titles_one_record: "distinct (titles c) \<Longrightarrow> one_record_per_command c"
  unfolding one_record_per_command_def titles_def
  by (rule distinct_map_filter_right)

text \<open>
  C6, the claim as stated fails: two calls of \<^verbatim>\<open>documents.upsert\<close> with different
  identifiers and the same title, body and stderr leave two Records with that title
  and with output.
\<close>

theorem two_records_counterexample:
  "\<not> one_record_per_command
       (docs (perform_all
          [(UpsertReq \<lparr>arg_id = Some ''a'', arg_title = Some ''echo hi'', arg_body = Some ''hi'',
                       arg_stderr = Some ''w''\<rparr>,
            \<lparr>caller_of = ''conn1'', called_at = 0, gen_id = ''G1'',
             proc = \<lparr>failure = None, out = [], errout = []\<rparr>, ended_at = 0\<rparr>),
           (UpsertReq \<lparr>arg_id = Some ''b'', arg_title = Some ''echo hi'', arg_body = Some ''hi'',
                       arg_stderr = Some ''w''\<rparr>,
            \<lparr>caller_of = ''conn1'', called_at = 1, gen_id = ''G2'',
             proc = \<lparr>failure = None, out = [], errout = []\<rparr>, ended_at = 1\<rparr>)]
          empty_server))"
  by (simp add: run_defs one_record_per_command_def has_output_def)

text \<open>
  C6, amended. In every state reached from the empty store by a sequence of Gateway
  operations, each run to its end before the next starts, that are
  \<^verbatim>\<open>documents.remove\<close>, \<^verbatim>\<open>docker.hli\<close>, \<^verbatim>\<open>docker.public\<close>, or a \<^verbatim>\<open>documents.upsert\<close>
  that lists no title, each command string is the title of at most one Record, and so of
  at most one Record with output.
\<close>

theorem one_record_per_dispatched_command:
  assumes "\<forall>x \<in> set ops. untitled_upsert (fst x)"
  shows "distinct (titles (docs (perform_all ops empty_server)))
       \<and> one_record_per_command (docs (perform_all ops empty_server))"
proof -
  have "distinct (titles (docs empty_server))"
    by (simp add: empty_server_def titles_def)
  from titles_perform_all [OF this assms]
  show ?thesis
    by (simp add: titles_one_record)
qed

theorem one_record_per_dispatched_command_witness:
  "one_record_per_command
     (docs (perform_all
        [(HliReq \<lparr>docker_id = None, cmd = Some ''echo hi''\<rparr>,
          \<lparr>caller_of = ''conn1'', called_at = 0, gen_id = ''G1'',
           proc = \<lparr>failure = None, out = ''hi'', errout = []\<rparr>, ended_at = 10\<rparr>),
         (PublicReq \<lparr>docker_id = None, cmd = Some ''echo hi''\<rparr>,
          \<lparr>caller_of = ''conn1'', called_at = 20, gen_id = ''G2'',
           proc = \<lparr>failure = None, out = ''hi'', errout = []\<rparr>, ended_at = 30\<rparr>),
         (UpsertReq \<lparr>arg_id = Some ''G1'', arg_title = None, arg_body = Some ''edited'',
                     arg_stderr = None\<rparr>,
          \<lparr>caller_of = ''conn1'', called_at = 40, gen_id = ''G3'',
           proc = \<lparr>failure = None, out = [], errout = []\<rparr>, ended_at = 40\<rparr>),
         (RemoveReq ''G7'',
          \<lparr>caller_of = ''conn1'', called_at = 50, gen_id = ''G4'',
           proc = \<lparr>failure = None, out = [], errout = []\<rparr>, ended_at = 50\<rparr>)]
        empty_server))"
  using one_record_per_dispatched_command
    [of "[(HliReq \<lparr>docker_id = None, cmd = Some ''echo hi''\<rparr>,
          \<lparr>caller_of = ''conn1'', called_at = 0, gen_id = ''G1'',
           proc = \<lparr>failure = None, out = ''hi'', errout = []\<rparr>, ended_at = 10\<rparr>),
         (PublicReq \<lparr>docker_id = None, cmd = Some ''echo hi''\<rparr>,
          \<lparr>caller_of = ''conn1'', called_at = 20, gen_id = ''G2'',
           proc = \<lparr>failure = None, out = ''hi'', errout = []\<rparr>, ended_at = 30\<rparr>),
         (UpsertReq \<lparr>arg_id = Some ''G1'', arg_title = None, arg_body = Some ''edited'',
                     arg_stderr = None\<rparr>,
          \<lparr>caller_of = ''conn1'', called_at = 40, gen_id = ''G3'',
           proc = \<lparr>failure = None, out = [], errout = []\<rparr>, ended_at = 40\<rparr>),
         (RemoveReq ''G7'',
          \<lparr>caller_of = ''conn1'', called_at = 50, gen_id = ''G4'',
           proc = \<lparr>failure = None, out = [], errout = []\<rparr>, ended_at = 50\<rparr>)]"]
  by (simp add: untitled_upsert_def)

section \<open>The two dispatch methods\<close>

text \<open>
  C7. \<^verbatim>\<open>docker.hli\<close> and \<^verbatim>\<open>docker.public\<close> compute the same: each run is the common
  dispatcher, with the same dedup check and the same \<^verbatim>\<open>maxBuffer\<close>, applied to its own
  prefix, \<^verbatim>\<open>docker run --rm tanghaibao/tredparse\<close> for the one and
  \<^verbatim>\<open>docker run --rm tanghaibao/tredparse-public\<close> for the other, and the two
  callbacks (capture, error substitution, fields of the persisted Record) are the same
  function.
\<close>

theorem hli_public_differ_in_prefix_only:
  "HLIDocker_run = Dispatcher_run ''docker run --rm tanghaibao/tredparse''
   \<and> PublicDocker_run = Dispatcher_run ''docker run --rm tanghaibao/tredparse-public''
   \<and> HLIDocker_callback = PublicDocker_callback"
  by (intro conjI ext)
     (simp_all add: HLIDocker_run_def PublicDocker_run_def Dispatcher_run_def
        HLIDocker_callback_def PublicDocker_callback_def)

section \<open>The boundary of the rate limit\<close>

text \<open>
  C8, the claim as stated fails: the limiter counts each method on its own, so six
  calls by one caller within six milliseconds, three of \<^verbatim>\<open>documents.upsert\<close> and
  three of \<^verbatim>\<open>documents.remove\<close>, all succeed; the sixth rate-limited call in the
  window is not refused.
\<close>

theorem mixed_methods_counterexample:
  "Meteor_calls ''conn1''
     [(UpsertReq \<lparr>arg_id = Some ''a1'', arg_title = Some ''x'', arg_body = None,
                  arg_stderr = None\<rparr>, 0, ''G1''),
      (RemoveReq ''a2'', 1, ''G2''),
      (UpsertReq \<lparr>arg_id = Some ''a1'', arg_title = Some ''x'', arg_body = None,
                  arg_stderr = None\<rparr>, 2, ''G3''),
      (RemoveReq ''a3'', 3, ''G4''),
      (UpsertReq \<lparr>arg_id = Some ''a1'', arg_title = Some ''x'', arg_body = None,
                  arg_stderr = None\<rparr>, 4, ''G5''),
      (RemoveReq ''a4'', 5, ''G6'')]
     empty_server
   = [Inr None, Inr None, Inr None, Inr None, Inr None, Inr None]"
  by (simp add: run_defs)

text \<open>
  C8, amended. With the cap 5 and the window of 1000 ms, counted for each method and
  caller on its own: a caller for whom no window of the method is open any more (none
  was opened, or the last one is over) makes seven calls of one rate-limited method
  (\<^verbatim>\<open>documents.upsert\<close> or \<^verbatim>\<open>documents.remove\<close>). The first opens the window at
  \<open>t1\<close>; the next five come before \<open>t1 + 1000\<close>, the seventh at \<open>t1 + 1000\<close> or later.
  The first five succeed, the sixth is refused with \<open>RateLimitExceeded\<close>, and the
  seventh succeeds again.
\<close>

theorem rate_limit_boundary:
  assumes m: "m = upsertDocument \<or> m = removeDocument"
    and fresh: "case limiter s (m, c) of None \<Rightarrow> True | Some w \<Rightarrow> started w + 1000 \<le> t1"
    and meth: "\<forall>q \<in> set [q1, q2, q3, q4, q5, q6, q7]. method_of q = m"
    and within: "\<forall>t \<in> set [t2, t3, t4, t5, t6]. t < t1 + 1000"
    and after: "t1 + 1000 \<le> t7"
  shows "map (\<lambda>x. x = Inl RateLimitExceeded)
           (Meteor_calls c [(q1, t1, g1), (q2, t2, g2), (q3, t3, g3), (q4, t4, g4), (q5, t5, g5),
                            (q6, t6, g6), (q7, t7, g7)] s)
         = [False, False, False, False, False, True, False]"
proof (cases "limiter s (m, c)")
  case None
  with meth within after show ?thesis
    by (simp add: Meteor_calls_Cons refused_Meteor_call limiter_Meteor_call allow_tracked [OF m]
        Let_def del: Meteor_calls.simps(2))
next
  case (Some w)
  with fresh have "\<not> t1 < started w + 1000"
    by simp
  with Some meth within after show ?thesis
    by (simp add: Meteor_calls_Cons refused_Meteor_call limiter_Meteor_call allow_tracked [OF m]
        Let_def del: Meteor_calls.simps(2))
qed

theorem rate_limit_boundary_witness:
  "map (\<lambda>x. x = Inl RateLimitExceeded)
     (Meteor_calls ''conn1''
        [(RemoveReq ''a1'', 0, ''G1''), (RemoveReq ''a2'', 100, ''G2''),
         (RemoveReq ''a3'', 200, ''G3''), (RemoveReq ''a4'', 300, ''G4''),
         (RemoveReq ''a5'', 400, ''G5''), (RemoveReq ''a6'', 999, ''G6''),
         (RemoveReq ''a7'', 1000, ''G7'')]
        empty_server)
   = [False, False, False, False, False, True, False]"
  using rate_limit_boundary
    [where m = removeDocument and s = empty_server and c = "''conn1''"
       and ?q1.0 = "RemoveReq ''a1''" and ?q2.0 = "RemoveReq ''a2''"
       and ?q3.0 = "RemoveReq ''a3''" and ?q4.0 = "RemoveReq ''a4''"
       and ?q5.0 = "RemoveReq ''a5''" and ?q6.0 = "RemoveReq ''a6''"
       and ?q7.0 = "RemoveReq ''a7''"
       and ?t1.0 = 0 and ?t2.0 = 100 and ?t3.0 = 200 and ?t4.0 = 300 and ?t5.0 = 400
       and ?t6.0 = 999 and ?t7.0 = 1000
       and ?g1.0 = "''G1''" and ?g2.0 = "''G2''" and ?g3.0 = "''G3''" and ?g4.0 = "''G4''"
       and ?g5.0 = "''G5''" and ?g6.0 = "''G6''" and ?g7.0 = "''G7''"]
  by (simp add: empty_server_def)

section \<open>Idempotent upsert\<close>

text \<open>
  C9. Two calls of \<^verbatim>\<open>documents.upsert\<close> with the same arguments, an identifier among
  them, on a store whose identifiers are distinct: the second call leaves the state as
  the first left it, and the store then holds exactly one Record with that identifier,
  which carries the field values of the call.
\<close>

theorem upsert_idempotent:
  assumes "arg_id d = Some i" and "distinct (map doc_id (docs s))"
  shows "upsertDocument_run d g2 (upsertDocument_run d g1 s) = upsertDocument_run d g1 s
       \<and> (\<exists>r. filter (\<lambda>r. doc_id r = i)
                 (docs (upsertDocument_run d g2 (upsertDocument_run d g1 s))) = [r]
              \<and> (case arg_title d of None \<Rightarrow> True | Some t \<Rightarrow> title r = Some t)
              \<and> (case arg_body d of None \<Rightarrow> True | Some b \<Rightarrow> body r = Some b)
              \<and> (case arg_stderr d of None \<Rightarrow> True | Some e \<Rightarrow> stderr r = Some e))"
proof -
  let ?m = "\<lparr>set_title = arg_title d, set_body = arg_body d,
              set_stderr = arg_stderr d, set_createdAt = None\<rparr>"
  have idem: "upsertDocument_run d g2 (upsertDocument_run d g1 s) = upsertDocument_run d g1 s"
    using assms(1) by (simp add: upsertDocument_run_def Documents_upsert_idem)
  have "\<exists>r0. filter (\<lambda>r. doc_id r = i) (Documents_upsert (Some i) ?m g1 (docs s))
               = [apply_set ?m r0]"
  proof (cases "i \<in> set (map doc_id (docs s))")
    case True
    from filter_id_update_first [OF assms(2) True, of "apply_set ?m"]
    show ?thesis using True by (auto simp: Documents_upsert_def doc_id_apply_set)
  next
    case False
    then have "filter (\<lambda>r. doc_id r = i) (docs s) = []"
      by (auto simp: filter_empty_conv)
    with False show ?thesis
      by (auto simp: Documents_upsert_def doc_id_apply_set new_document_def)
  qed
  then obtain r0 where
    "filter (\<lambda>r. doc_id r = i) (docs (upsertDocument_run d g1 s)) = [apply_set ?m r0]"
    using assms(1) by (auto simp: upsertDocument_run_def)
  moreover have
    "(case arg_title d of None \<Rightarrow> True | Some t \<Rightarrow> title (apply_set ?m r0) = Some t)
      \<and> (case arg_body d of None \<Rightarrow> True | Some b \<Rightarrow> body (apply_set ?m r0) = Some b)
      \<and> (case arg_stderr d of None \<Rightarrow> True | Some e \<Rightarrow> stderr (apply_set ?m r0) = Some e)"
    by (simp add: apply_set_def split: option.splits)
  ultimately show ?thesis using idem by simp
qed

theorem upsert_idempotent_witness:
  "upsertDocument_run
     \<lparr>arg_id = Some ''a1'', arg_title = Some ''x'', arg_body = None, arg_stderr = None\<rparr> ''G2''
     (upsertDocument_run
        \<lparr>arg_id = Some ''a1'', arg_title = Some ''x'', arg_body = None, arg_stderr = None\<rparr> ''G1''
        empty_server)
   = upsertDocument_run
       \<lparr>arg_id = Some ''a1'', arg_title = Some ''x'', arg_body = None, arg_stderr = None\<rparr> ''G1''
       empty_server
   \<and> (\<exists>r. filter (\<lambda>r. doc_id r = ''a1'')
             (docs (upsertDocument_run
                \<lparr>arg_id = Some ''a1'', arg_title = Some ''x'', arg_body = None,
                  arg_stderr = None\<rparr> ''G2''
                (upsertDocument_run
                   \<lparr>arg_id = Some ''a1'', arg_title = Some ''x'', arg_body = None,
                     arg_stderr = None\<rparr> ''G1''
                   empty_server))) = [r]
          \<and> title r = Some ''x'')"
  using upsert_idempotent
    [of "\<lparr>arg_id = Some ''a1'', arg_title = Some ''x'', arg_body = None, arg_stderr = None\<rparr>"
        "''a1''" empty_server "''G2''" "''G1''"]
  by (auto simp: empty_server_def)

section \<open>Success without output\<close>

text \<open>
  C10. When the process ends without error and with an empty stdout, the callback of
  either method throws a TypeError at \<^verbatim>\<open>err.toString()\<close>; the callback persists
  exactly when the stdout is non-empty or the error is not null; and an operation whose
  process ends without error and prints nothing to stdout leaves the store as it was, so
  no Record is persisted for that dispatch.
\<close>

theorem empty_success_throws:
  "HLIDocker_callback d None [] se now gen s = Inl TypeError
   \<and> PublicDocker_callback d None [] se now gen s = Inl TypeError
   \<and> ((\<exists>s'. HLIDocker_callback d err so se now gen s = Inr s') \<longleftrightarrow> (so \<noteq> [] \<or> err \<noteq> None))
   \<and> ((\<exists>s'. PublicDocker_callback d err so se now gen s = Inr s') \<longleftrightarrow> (so \<noteq> [] \<or> err \<noteq> None))
   \<and> (failure (proc e) = None \<and> out (proc e) = [] \<longrightarrow>
        docs (perform (HliReq d) e s) = docs s \<and> docs (perform (PublicReq d) e s) = docs s)"
proof (intro conjI)
  show "HLIDocker_callback d None [] se now gen s = Inl TypeError"
    by (simp add: HLIDocker_callback_def)
  show "PublicDocker_callback d None [] se now gen s = Inl TypeError"
    by (simp add: PublicDocker_callback_def)
  show "(\<exists>s'. HLIDocker_callback d err so se now gen s = Inr s') \<longleftrightarrow> (so \<noteq> [] \<or> err \<noteq> None)"
    by (auto simp: HLIDocker_callback_def Let_def split: option.splits)
  show "(\<exists>s'. PublicDocker_callback d err so se now gen s = Inr s') \<longleftrightarrow> (so \<noteq> [] \<or> err \<noteq> None)"
    by (auto simp: PublicDocker_callback_def Let_def split: option.splits)
  show "failure (proc e) = None \<and> out (proc e) = [] \<longrightarrow>
        docs (perform (HliReq d) e s) = docs s \<and> docs (perform (PublicReq d) e s) = docs s"
    by (auto simp: perform_def Meteor_call_def allow_docker complete_def exec_def
        HLIDocker_run_def PublicDocker_run_def HLIDocker_callback_def PublicDocker_callback_def
        Let_def split: prod.splits sum.splits option.splits)
qed

theorem empty_success_throws_witness:
  "HLIDocker_callback \<lparr>docker_id = None, cmd = Some ''true''\<rparr> None [] [] 5 ''G1'' empty_server
     = Inl TypeError
   \<and> docs (perform (HliReq \<lparr>docker_id = None, cmd = Some ''true''\<rparr>)
             \<lparr>caller_of = ''conn1'', called_at = 0, gen_id = ''G1'',
              proc = \<lparr>failure = None, out = [], errout = []\<rparr>, ended_at = 5\<rparr>
             empty_server)
     = docs empty_server"
  using empty_success_throws
    [where d = "\<lparr>docker_id = None, cmd = Some ''true''\<rparr>" and se = "[]" and now = 5
       and gen = "''G1''" and s = empty_server and err = None and so = "[]"
       and e = "\<lparr>caller_of = ''conn1'', called_at = 0, gen_id = ''G1'',
                 proc = \<lparr>failure = None, out = [], errout = []\<rparr>, ended_at = 5\<rparr>"]
  by simp

end
